theory Spec2Isabelle
  imports Complex_Main "HOL-Library.Multiset" "HOL-Library.Char_ord"
    "HOL-Library.List_Lexorder" "HOL-Library.Product_Lexorder"
begin

section \<open>Paired-end / split-read enrichment test (svtk/pesr/pesr\_test.py)\<close>

subsection \<open>Data model\<close>

type_synonym sample = string

text \<open>
  The counts table is a pandas DataFrame of which the code reads two columns, \<open>sample\<close>
  and \<open>count\<close>; a row is the pair of the two, and the table is the list of its rows.
\<close>

type_synonym counts_table = "(sample \<times> int) list"

datatype py_error = ValueError

text \<open>
  The result of \<open>PESRTest.test\<close> is a Series with the three labels \<open>called\<close>,
  \<open>background\<close> and \<open>log_pval\<close>.
\<close>

record score =
  background :: real
  called :: real
  log_pval :: real

subsection \<open>PESRTest\<close>

text \<open>\<open>null_score(null_val)\<close>: the same value under each of the three labels.\<close>

definition null_score :: "real \<Rightarrow> score" where
  "null_score null_val = \<lparr>background = null_val, called = null_val, log_pval = null_val\<rparr>"

text \<open>
  \<open>Series.median\<close>: the middle of the sorted values, the mean of the two middle values
  when their number is even. A group with no row does not occur in the result of
  \<open>groupby\<close>; that is the value \<open>None\<close>, which \<open>reindex([True, False])\<close> turns into
  NaN.
\<close>

definition median :: "real list \<Rightarrow> real option" where
  "median xs =
     (let s = sort xs; n = length s in
      if n = 0 then None
      else if odd n then Some (s ! (n div 2))
      else Some ((s ! (n div 2 - 1) + s ! (n div 2)) / 2))"

text \<open>\<open>fillna(0)\<close> on one entry.\<close>

definition fillna0 :: "real option \<Rightarrow> real" where
  "fillna0 v = (case v of None \<Rightarrow> 0 | Some x \<Rightarrow> x)"

text \<open>
  \<open>counts.loc[counts['sample'].isin(samples + background)]\<close>: the rows whose sample is
  one of the called or background samples, in table order.
\<close>

definition restrict_counts :: "counts_table \<Rightarrow> sample list \<Rightarrow> counts_table" where
  "restrict_counts counts keep = filter (\<lambda>r. fst r \<in> set keep) counts"

text \<open>
  \<open>set_index('sample')['count'].reindex(labels).fillna(0).reset_index()\<close>: one row per
  requested label, in the order of the labels, holding the count of that sample or 0 when
  the table has no row for it. When the requested labels are the index itself, pandas
  hands the Series back as it is, repeated labels and all. Otherwise it refuses to
  reindex a Series whose index has a repeated label (ValueError), unless no label is
  requested.
\<close>

definition reindex_counts :: "counts_table \<Rightarrow> sample list \<Rightarrow> py_error + (sample \<times> real) list" where
  "reindex_counts counts labels =
     (if map fst counts = labels then Inr (map (\<lambda>(s, c). (s, real_of_int c)) counts)
      else if \<not> distinct (map fst counts) \<and> labels \<noteq> [] then Inl ValueError
      else Inr (map (\<lambda>s. (s, fillna0 (map_option real_of_int (map_of counts s)))) labels))"

text \<open>
  \<open>counts['is_called'] = counts['sample'].isin(samples)\<close>: every row gets the flag saying
  whether its sample is one of the called ones.
\<close>

definition label_called :: "(sample \<times> real) list \<Rightarrow> sample list \<Rightarrow> (sample \<times> real \<times> bool) list" where
  "label_called rows called_samples = map (\<lambda>(s, c). (s, c, s \<in> set called_samples)) rows"

text \<open>The \<open>count\<close> column of one group of \<open>groupby('is_called')\<close>, in row order.\<close>

definition group_counts :: "(sample \<times> real \<times> bool) list \<Rightarrow> bool \<Rightarrow> real list" where
  "group_counts rows b =
     map (\<lambda>(s, c, is_called). c) (filter (\<lambda>(s, c, is_called). is_called = b) rows)"

text \<open>
  \<open>PESRTest.test(counts, samples, background)\<close>. \<open>scipy.stats.poisson.cdf\<close> and
  \<open>numpy.log10\<close> are library functions on floating-point numbers; they are the
  parameters \<open>poisson_cdf\<close> (first argument the point, second the rate) and \<open>log10\<close>.
  The medians of the two groups are reindexed to \<open>[True, False]\<close>, a missing group
  becoming 0, and relabelled \<open>called\<close> and \<open>background\<close>.
\<close>

definition test ::
  "(real \<Rightarrow> real \<Rightarrow> real) \<Rightarrow> (real \<Rightarrow> real) \<Rightarrow>
   counts_table \<Rightarrow> sample list \<Rightarrow> sample list \<Rightarrow> py_error + score" where
  "test poisson_cdf log10 counts samples bg =
     (let counts1 = restrict_counts counts (samples @ bg) in
      if length counts1 = 0 then Inr (null_score 0)
      else
        case reindex_counts counts1 (samples @ bg) of
          Inl e \<Rightarrow> Inl e
        | Inr counts2 \<Rightarrow>
            let counts3 = label_called counts2 samples;
                result_called = fillna0 (median (group_counts counts3 True));
                result_background = fillna0 (median (group_counts counts3 False));
                pval = poisson_cdf result_background result_called
            in Inr \<lparr>background = result_background, called = result_called,
                    log_pval = \<bar>log10 pval\<bar>\<rparr>)"

subsection \<open>PESRTestRunner\<close>

record runner =
  samples :: "sample list"
  n_background :: int
  whitelist :: "sample list"
  blacklist :: "sample list"

text \<open>
  \<open>__init__(vcf, n_background=160, whitelist=None, blacklist=None)\<close>. The samples are
  those of the VCF header. \<open>x if x else d\<close> is \<open>d\<close> when \<open>x\<close> is \<open>None\<close> or the empty
  list: a falsy whitelist stands for all samples, a falsy blacklist for no sample.
\<close>

definition or_default :: "'a list option \<Rightarrow> 'a list \<Rightarrow> 'a list" where
  "or_default v d = (case v of None \<Rightarrow> d | Some xs \<Rightarrow> (if xs = [] then d else xs))"

definition PESRTestRunner_init ::
  "sample list \<Rightarrow> int option \<Rightarrow> sample list option \<Rightarrow> sample list option \<Rightarrow> runner" where
  "PESRTestRunner_init header_samples n_bg wl bl =
     \<lparr>samples = header_samples,
      n_background = (case n_bg of None \<Rightarrow> 160 | Some n \<Rightarrow> n),
      whitelist = or_default wl header_samples,
      blacklist = or_default bl []\<rparr>"

text \<open>
  \<open>numpy.random.choice(a, size, replace=False)\<close> draws a permutation of the positions
  of \<open>a\<close> from the generator and returns the elements at its first \<open>size\<close> positions.
  The generator is the parameter \<open>rng\<close>, which gives the permutation drawn for a
  population size. A negative number of draws, or one above the population, is a
  ValueError.
\<close>

definition random_choice :: "(nat \<Rightarrow> nat list) \<Rightarrow> 'a list \<Rightarrow> int \<Rightarrow> py_error + 'a list" where
  "random_choice rng a n =
     (if n < 0 \<or> int (length a) < n then Inl ValueError
      else Inr (map (\<lambda>i. a ! i) (take (nat n) (rng (length a)))))"

text \<open>
  \<open>choose_background(record, whitelist=None, blacklist=None)\<close>.
  \<open>svtk.utils.get_called_samples\<close> is the parameter \<open>get_called_samples\<close>.
\<close>

definition choose_background ::
  "('r \<Rightarrow> sample list) \<Rightarrow> (nat \<Rightarrow> nat list) \<Rightarrow> runner \<Rightarrow> 'r \<Rightarrow>
   sample list option \<Rightarrow> sample list option \<Rightarrow> py_error + (sample list \<times> sample list)" where
  "choose_background get_called_samples rng self record wl_arg bl_arg =
     (let called0 = get_called_samples record;
          background0 = filter (\<lambda>s. s \<notin> set called0) (samples self);
          wl = (case wl_arg of Some w \<Rightarrow> w | None \<Rightarrow> whitelist self);
          bl = (case bl_arg of Some b \<Rightarrow> b | None \<Rightarrow> blacklist self);
          filter_whitelist = filter (\<lambda>s. s \<in> set wl);
          filter_blacklist = filter (\<lambda>s. s \<notin> set bl);
          called1 = filter_blacklist (filter_whitelist called0);
          background1 = filter_blacklist (filter_whitelist background0)
      in if int (length background1) \<ge> n_background self
         then (case random_choice rng background1 (n_background self) of
                 Inl e \<Rightarrow> Inl e
               | Inr background2 \<Rightarrow> Inr (called1, background2))
         else Inr (called1, background1))"

text \<open>The white- and blacklist in force for one call.\<close>

definition effective_whitelist :: "runner \<Rightarrow> sample list option \<Rightarrow> sample list" where
  "effective_whitelist self wl_arg = (case wl_arg of Some w \<Rightarrow> w | None \<Rightarrow> whitelist self)"

definition effective_blacklist :: "runner \<Rightarrow> sample list option \<Rightarrow> sample list" where
  "effective_blacklist self bl_arg = (case bl_arg of Some b \<Rightarrow> b | None \<Rightarrow> blacklist self)"

text \<open>
  The claim about the enrichment test, in its own words: the called and the background
  samples are compared by the median of their per-sample read counts (a sample without
  a row has count 0, no sample at all gives 0), and the reported value is the absolute
  base-10 logarithm of the Poisson distribution function of the background median at a
  rate of the called median.
\<close>

definition count_of :: "counts_table \<Rightarrow> sample \<Rightarrow> real" where
  "count_of counts s = (case map_of counts s of None \<Rightarrow> 0 | Some c \<Rightarrow> real_of_int c)"

definition enrichment_spec ::
  "(real \<Rightarrow> real \<Rightarrow> real) \<Rightarrow> (real \<Rightarrow> real) \<Rightarrow>
   counts_table \<Rightarrow> sample list \<Rightarrow> sample list \<Rightarrow> score" where
  "enrichment_spec poisson_cdf log10 counts called_samples bg =
     (let called_median = fillna0 (median (map (count_of counts) called_samples));
          background_median = fillna0 (median (map (count_of counts) bg))
      in \<lparr>background = background_median, called = called_median,
          log_pval = \<bar>log10 (poisson_cdf background_median called_median)\<bar>\<rparr>)"

text \<open>
  The Poisson distribution function over the reals, an instance of the parameter
  \<open>poisson_cdf\<close>: the probability of at most \<open>k\<close> events at rate \<open>mu\<close>.
\<close>

definition poisson_cdf_real :: "real \<Rightarrow> real \<Rightarrow> real" where
  "poisson_cdf_real k mu =
     (if k < 0 then 0 else exp (- mu) * (\<Sum>i \<le> nat \<lfloor>k\<rfloor>. mu ^ i / fact i))"

section \<open>Command line of the annotator (svtools/cli/annotate.py)\<close>

text \<open>The namespace that \<open>parser.parse_args\<close> returns for the four arguments.\<close>

record args =
  vcf :: string
  gencode :: "string option"
  noncoding :: "string option"
  annotated_vcf :: string

text \<open>
  What \<open>main\<close> does to the outside, in order: printing the help text, writing to
  standard error, opening the VCF, opening a BED or GTF file, and the call of
  \<open>svtools.annotation.annotate_vcf\<close> that writes the annotated variants.
\<close>

datatype event =
  PrintHelp
  | StderrWrite string
  | VariantFile string
  | BedTool string
  | AnnotateVcf string "string option" "string option" string

text \<open>\<open>sys.exit(n)\<close> ends the run with status \<open>n\<close>; otherwise \<open>main\<close> returns.\<close>

datatype outcome = SystemExit int | Returned

definition missing_sources_error :: string where
  "missing_sources_error =
     ''ERROR: Neither Gencode annotations nor noncoding elements provided. '' @
     ''Must specify at least one to annotate.'' @ [CHR 0x0A, CHR 0x0A]"

text \<open>
  \<open>main(argv)\<close>. \<open>argparse\<close> is a library: \<open>parse_args\<close> is a parameter that either
  ends the run itself (what it printed and its exit status) or returns the namespace.
\<close>

definition main ::
  "(string list \<Rightarrow> (event list \<times> int) + args) \<Rightarrow> string list \<Rightarrow> event list \<times> outcome" where
  "main parse_args argv =
     (if length argv = 0 then ([PrintHelp], SystemExit 1)
      else case parse_args argv of
        Inl (printed, status) \<Rightarrow> (printed, SystemExit status)
      | Inr a \<Rightarrow>
          if gencode a = None \<and> noncoding a = None
          then ([StderrWrite missing_sources_error, PrintHelp], SystemExit 1)
          else ([VariantFile (vcf a)] @
                (case gencode a of Some f \<Rightarrow> [BedTool f] | None \<Rightarrow> []) @
                (case noncoding a of Some f \<Rightarrow> [BedTool f] | None \<Rightarrow> []) @
                [AnnotateVcf (vcf a) (gencode a) (noncoding a) (annotated_vcf a)],
                Returned))"

text \<open>The events that open a file or write the annotated variants.\<close>

definition touches_files :: "event \<Rightarrow> bool" where
  "touches_files e = (case e of VariantFile f \<Rightarrow> True | BedTool f \<Rightarrow> True
     | AnnotateVcf v g n a \<Rightarrow> True | _ \<Rightarrow> False)"

text \<open>
  An instance of the parameter \<open>parse_args\<close>, to run \<open>main\<close> on concrete command lines.
  It reads the command lines that give the two positional arguments and the options
  \<open>--gencode FILE\<close> and \<open>--noncoding FILE\<close> under their full names, each name followed
  by its value as a separate word, and \<open>-h\<close>; there it returns the namespace that
  argparse returns, ends with status 0 on the help option and with status 2 on a missing
  argument. The other forms that argparse reads (\<open>--gencode=FILE\<close>, abbreviated option
  names, \<open>--\<close>) and the wording of its messages are outside it.
\<close>

fun scan_args ::
  "string list \<Rightarrow> string list \<Rightarrow> string option \<Rightarrow> string option \<Rightarrow>
   (event list \<times> int) + (string list \<times> string option \<times> string option)" where
  "scan_args [] pos g n = Inr (pos, g, n)"
| "scan_args [t] pos g n =
     (if t = ''-h'' \<or> t = ''--help'' then Inl ([PrintHelp], 0)
      else if t = ''--gencode'' \<or> t = ''--noncoding''
        then Inl ([StderrWrite ''error: expected one argument''], 2)
      else Inr (pos @ [t], g, n))"
| "scan_args (t # v # rest) pos g n =
     (if t = ''-h'' \<or> t = ''--help'' then Inl ([PrintHelp], 0)
      else if t = ''--gencode'' then scan_args rest pos (Some v) n
      else if t = ''--noncoding'' then scan_args rest pos g (Some v)
      else scan_args (v # rest) (pos @ [t]) g n)"

definition parse_args_model :: "string list \<Rightarrow> (event list \<times> int) + args" where
  "parse_args_model argv =
     (case scan_args argv [] None None of
        Inl halt \<Rightarrow> Inl halt
      | Inr (pos, g, n) \<Rightarrow>
          (case pos of
             [v, a] \<Rightarrow> Inr \<lparr>vcf = v, gencode = g, noncoding = n, annotated_vcf = a\<rparr>
           | _ \<Rightarrow> Inl ([StderrWrite ''error: wrong number of positional arguments''], 2)))"

section \<open>Genic-effect classification engine\<close>

text \<open>
  \<open>main\<close> hands the work to \<open>svtools.annotation.annotate_vcf\<close>, a module of the
  repository that is not among the sources at hand. The engine is therefore modelled
  from the specification, component by component.
\<close>

subsection \<open>Data model\<close>

text \<open>
  Modelled from the spec: the GenomicInterval of the missing module
  \<open>svtools.annotation\<close> (section 3), half-open, \<open>[start, stop)\<close> on a chromosome;
  \<open>stop\<close> is the spec's \<open>end\<close>.
\<close>

record GenomicInterval =
  chrom :: string
  start :: int
  stop :: int

text \<open>Modelled from the spec: the strand of a gene of the missing module (section 3).\<close>

datatype strand = Plus | Minus

text \<open>
  Modelled from the spec: the Gene of the missing module (section 3): id, interval,
  ordered exons, TSS and strand.
\<close>

record Gene =
  gene_id :: string
  gene_interval :: GenomicInterval
  exons :: "GenomicInterval list"
  tss :: int
  gene_strand :: strand

text \<open>
  Modelled from the spec: the NoncodingElement of the missing module (section 3):
  chromosome, interval, class and name.
\<close>

record NoncodingElement =
  nc_chrom :: string
  nc_interval :: GenomicInterval
  nc_class :: string
  nc_name :: string

text \<open>Modelled from the spec: the SV types of the missing module (section 3).\<close>

datatype sv_type = DEL | DUP | INV | BND

text \<open>
  Modelled from the spec: a breakpoint position of the missing module, a chromosome
  and a coordinate.
\<close>

type_synonym position = "string \<times> int"

text \<open>
  Modelled from the spec: the StructuralVariant of the missing module (section 3 and
  section 4.2). The primary interval is undefined (\<open>None\<close>) for a BND.
\<close>

record StructuralVariant =
  sv_id :: string
  svtype :: sv_type
  primary_interval :: "GenomicInterval option"
  breakpoint_a :: position
  breakpoint_b :: position

text \<open>Modelled from the spec: the effect classes of the missing module (section 3).\<close>

datatype effect_class = LOF | COPY_GAIN | INTRONIC | DUP_PARTIAL | INV_SPAN | NEAREST_TSS | NONE

text \<open>Modelled from the spec: the EffectAnnotation of the missing module (section 3).\<close>

record EffectAnnotation =
  ann_sv_id :: string
  ann_class :: effect_class
  gene_or_element_id :: "string option"

text \<open>
  Modelled from the spec: the contents of the Feature Index of the missing module, the
  genes and the noncoding elements it owns. The sorted per-chromosome structure that
  the spec asks for is a matter of speed and is left out.
\<close>

record FeatureIndex =
  genes :: "Gene list"
  noncoding_elements :: "NoncodingElement list"

text \<open>
  Modelled from the spec: the error of the loader of the missing module (section 7),
  with the identifier of the record it is logged under.
\<close>

datatype load_error = MalformedFeature string

subsection \<open>Interval algebra\<close>

text \<open>
  Modelled from the spec: the malformed interval of section 4.1, \<open>end <= start\<close>, which
  the loader of the missing module \<open>svtools.annotation\<close> rejects.
\<close>

definition malformed :: "GenomicInterval \<Rightarrow> bool" where
  "malformed a = (stop a \<le> start a)"

text \<open>
  Modelled from the spec: "overlaps" of section 4.3 in the missing module, a non-empty
  intersection of two half-open intervals of one chromosome.
\<close>

definition overlaps :: "GenomicInterval \<Rightarrow> GenomicInterval \<Rightarrow> bool" where
  "overlaps a b = (chrom a = chrom b \<and> max (start a) (start b) < min (stop a) (stop b))"

text \<open>
  Modelled from the spec: "entirely within" of section 4.3 in the missing module: \<open>a\<close>
  is a subset of \<open>b\<close>. Read the other way, \<open>b\<close> "spans the entirety of" \<open>a\<close>.
\<close>

definition lies_within :: "GenomicInterval \<Rightarrow> GenomicInterval \<Rightarrow> bool" where
  "lies_within a b = (chrom a = chrom b \<and> start b \<le> start a \<and> stop a \<le> stop b)"

text \<open>
  Modelled from the spec: "strictly contains" of section 4.3 and section 8 in the
  missing module: \<open>a\<close> reaches beyond \<open>b\<close> on both sides.
\<close>

definition strictly_contains :: "GenomicInterval \<Rightarrow> GenomicInterval \<Rightarrow> bool" where
  "strictly_contains a b = (chrom a = chrom b \<and> start a < start b \<and> stop b < stop a)"

text \<open>
  Modelled from the spec: "breakpoint falls within" of section 4.3 in the missing
  module, the half-open test for a single coordinate.
\<close>

definition falls_within :: "position \<Rightarrow> GenomicInterval \<Rightarrow> bool" where
  "falls_within p b = (fst p = chrom b \<and> start b \<le> snd p \<and> snd p < stop b)"

text \<open>
  Modelled from the spec: the gaps between consecutive exons, from which the missing
  module computes the introns (section 3).
\<close>

fun gaps :: "GenomicInterval list \<Rightarrow> GenomicInterval list" where
  "gaps (e1 # e2 # es) = \<lparr>chrom = chrom e1, start = stop e1, stop = start e2\<rparr> # gaps (e2 # es)"
| "gaps es = []"

text \<open>
  Modelled from the spec: an interval bounded by another, for the introns of the missing
  module, which are "bounded by the gene interval" (section 3).
\<close>

definition bound_by :: "GenomicInterval \<Rightarrow> GenomicInterval \<Rightarrow> GenomicInterval" where
  "bound_by b a = \<lparr>chrom = chrom a, start = max (start a) (start b), stop = min (stop a) (stop b)\<rparr>"

text \<open>
  Modelled from the spec: the introns of a gene in the missing module, computed on
  demand as the gaps between consecutive exons, bounded by the gene interval
  (section 3); an empty gap is no intron.
\<close>

definition introns :: "Gene \<Rightarrow> GenomicInterval list" where
  "introns g = filter (\<lambda>i. \<not> malformed i) (map (bound_by (gene_interval g)) (gaps (exons g)))"

text \<open>
  Modelled from the spec: the invariant of a Gene in the missing module (section 3):
  every exon interval is contained within the gene interval.
\<close>

definition gene_invariant :: "Gene \<Rightarrow> bool" where
  "gene_invariant g = (\<forall>e \<in> set (exons g). lies_within e (gene_interval g))"


subsection \<open>Feature Index\<close>

text \<open>
  Modelled from the spec: the gene records that the loader of the missing module
  rejects (section 4.1): the interval of the gene, or that of one of its exons, is
  malformed.
\<close>

definition malformed_gene :: "Gene \<Rightarrow> bool" where
  "malformed_gene g = (malformed (gene_interval g) \<or> (\<exists>e \<in> set (exons g). malformed e))"

text \<open>
  Modelled from the spec: one step of the loader of the missing module over a gene
  record (section 4.1 and section 7). The state is the index built so far and the log.
  A malformed record is rejected with MalformedFeature: it is skipped, the error is
  logged under the record's id, and the load goes on with the next record.
\<close>

definition load_gene :: "FeatureIndex \<times> load_error list \<Rightarrow> Gene \<Rightarrow> FeatureIndex \<times> load_error list" where
  "load_gene st g =
     (case st of (idx, errs) \<Rightarrow>
        if malformed_gene g then (idx, errs @ [MalformedFeature (gene_id g)])
        else (idx\<lparr>genes := genes idx @ [g]\<rparr>, errs))"

text \<open>
  Modelled from the spec: one step of the loader of the missing module over a noncoding
  element (section 4.1 and section 7), as for a gene record.
\<close>

definition load_noncoding ::
  "FeatureIndex \<times> load_error list \<Rightarrow> NoncodingElement \<Rightarrow> FeatureIndex \<times> load_error list" where
  "load_noncoding st n =
     (case st of (idx, errs) \<Rightarrow>
        if malformed (nc_interval n) then (idx, errs @ [MalformedFeature (nc_name n)])
        else (idx\<lparr>noncoding_elements := noncoding_elements idx @ [n]\<rparr>, errs))"

text \<open>
  Modelled from the spec: \<open>build(genes, noncoding)\<close> of the missing module
  (section 4.1): the loader runs over the gene records, then over the noncoding
  elements, and returns the index with the log.
\<close>

definition build :: "Gene list \<Rightarrow> NoncodingElement list \<Rightarrow> FeatureIndex \<times> load_error list" where
  "build gs ns =
     foldl load_noncoding (foldl load_gene (\<lparr>genes = [], noncoding_elements = []\<rparr>, []) gs) ns"

text \<open>
  Modelled from the spec: the query \<open>overlapping_noncoding(interval)\<close> of the missing
  module (section 4.1). It returns a set, held here as a list without repetition.
\<close>

definition overlapping_noncoding :: "FeatureIndex \<Rightarrow> GenomicInterval \<Rightarrow> NoncodingElement list" where
  "overlapping_noncoding idx iv =
     remdups (filter (\<lambda>n. overlaps iv (nc_interval n)) (noncoding_elements idx))"

text \<open>
  Modelled from the spec: the query \<open>nearest_tss(position, chrom)\<close> of the missing
  module (section 4.1): the gene of the chromosome whose TSS is closest to the position
  by absolute distance, with the distance; of two genes at the same distance the one
  with the lexically smaller id.
\<close>

definition nearest_tss :: "FeatureIndex \<Rightarrow> int \<Rightarrow> string \<Rightarrow> (Gene \<times> int) option" where
  "nearest_tss idx pos c =
     (case sort_key (\<lambda>g. (\<bar>tss g - pos\<bar>, gene_id g))
             (remdups (filter (\<lambda>g. chrom (gene_interval g) = c) (genes idx))) of
        [] \<Rightarrow> None
      | g # _ \<Rightarrow> Some (g, \<bar>tss g - pos\<bar>))"

subsection \<open>Classification Rules\<close>

text \<open>
  Modelled from the spec: "overlaps any exon" in the rule table of the missing module
  (section 4.3).
\<close>

definition exon_overlap :: "GenomicInterval \<Rightarrow> Gene \<Rightarrow> bool" where
  "exon_overlap iv g = (\<exists>e \<in> set (exons g). overlaps iv e)"

text \<open>
  Modelled from the spec: "entirely within an intron" in the rule table of the missing
  module (section 4.3).
\<close>

definition in_intron :: "GenomicInterval \<Rightarrow> Gene \<Rightarrow> bool" where
  "in_intron iv g = (\<exists>i \<in> set (introns g). lies_within iv i)"

text \<open>
  Modelled from the spec: the DEL rules of the missing module (section 4.3), the classes
  they emit for one gene. LOF when the deletion overlaps any exon; INTRONIC when it is
  entirely within an intron, with no exon overlap.
\<close>

definition del_rule :: "GenomicInterval \<Rightarrow> Gene \<Rightarrow> effect_class list" where
  "del_rule iv g =
     (if exon_overlap iv g then [LOF] else []) @
     (if in_intron iv g \<and> \<not> exon_overlap iv g then [INTRONIC] else [])"

text \<open>
  Modelled from the spec: "overlaps gene boundary start or end" in the DUP rules of the
  missing module (section 4.3): the first or the last base of the gene falls within the
  SV's interval.
\<close>

definition crosses_boundary :: "GenomicInterval \<Rightarrow> GenomicInterval \<Rightarrow> bool" where
  "crosses_boundary iv gi =
     (falls_within (chrom gi, start gi) iv \<or> falls_within (chrom gi, stop gi - 1) iv)"

text \<open>
  Modelled from the spec: the DUP rules of the missing module (section 4.3). LOF when
  the duplication is entirely within the gene boundary and overlaps an exon; COPY\_GAIN
  when it spans the entirety of the gene boundary; DUP\_PARTIAL when it overlaps the
  start or the end of the gene boundary but not its entirety, and only when neither the
  LOF nor the COPY\_GAIN condition holds; INTRONIC when entirely within an intron.
\<close>

definition dup_rule :: "GenomicInterval \<Rightarrow> Gene \<Rightarrow> effect_class list" where
  "dup_rule iv g =
     (let gi = gene_interval g;
          lof = (lies_within iv gi \<and> exon_overlap iv g);
          copy_gain = lies_within gi iv;
          partial = (overlaps iv gi \<and> crosses_boundary iv gi \<and> \<not> lies_within gi iv)
      in (if lof then [LOF] else []) @
         (if copy_gain then [COPY_GAIN] else []) @
         (if partial \<and> \<not> lof \<and> \<not> copy_gain then [DUP_PARTIAL] else []) @
         (if in_intron iv g then [INTRONIC] else []))"

text \<open>
  Modelled from the spec: "breakpoint within an exon" in the INV rules of the missing
  module (section 4.3).
\<close>

definition in_exon :: "position \<Rightarrow> Gene \<Rightarrow> bool" where
  "in_exon p g = (\<exists>e \<in> set (exons g). falls_within p e)"

text \<open>
  Modelled from the spec: the INV rules of the missing module (section 4.3). LOF when
  the inversion is entirely within an exon, or exactly one breakpoint falls within an
  exon, or it is entirely within the gene boundary and overlaps an exon, or exactly one
  breakpoint falls within the gene boundary; INV\_SPAN when both breakpoints are outside
  the gene and the interval strictly contains it; INTRONIC when entirely within an
  intron.
\<close>

definition inv_rule :: "StructuralVariant \<Rightarrow> GenomicInterval \<Rightarrow> Gene \<Rightarrow> effect_class list" where
  "inv_rule sv iv g =
     (let gi = gene_interval g; a = breakpoint_a sv; b = breakpoint_b sv;
          lof = ((\<exists>e \<in> set (exons g). lies_within iv e) \<or>
                 (in_exon a g \<noteq> in_exon b g) \<or>
                 (lies_within iv gi \<and> exon_overlap iv g) \<or>
                 (falls_within a gi \<noteq> falls_within b gi));
          span = (\<not> falls_within a gi \<and> \<not> falls_within b gi \<and> strictly_contains iv gi)
      in (if lof then [LOF] else []) @
         (if span then [INV_SPAN] else []) @
         (if in_intron iv g then [INTRONIC] else []))"

text \<open>
  Modelled from the spec: the BND rule of the missing module (section 4.3): LOF when
  either breakpoint falls within the gene boundary.
\<close>

definition bnd_rule :: "StructuralVariant \<Rightarrow> Gene \<Rightarrow> effect_class list" where
  "bnd_rule sv g =
     (if falls_within (breakpoint_a sv) (gene_interval g) \<or>
         falls_within (breakpoint_b sv) (gene_interval g) then [LOF] else [])"

text \<open>
  Modelled from the spec: the dispatch of the missing module on the SV type
  (section 4.3 and section 9). A DEL, DUP or INV without a primary interval matches no
  rule.
\<close>

definition classification_rule :: "StructuralVariant \<Rightarrow> Gene \<Rightarrow> effect_class list" where
  "classification_rule sv g =
     (case svtype sv of
        BND \<Rightarrow> bnd_rule sv g
      | DEL \<Rightarrow> (case primary_interval sv of None \<Rightarrow> [] | Some iv \<Rightarrow> del_rule iv g)
      | DUP \<Rightarrow> (case primary_interval sv of None \<Rightarrow> [] | Some iv \<Rightarrow> dup_rule iv g)
      | INV \<Rightarrow> (case primary_interval sv of None \<Rightarrow> [] | Some iv \<Rightarrow> inv_rule sv iv g))"

subsection \<open>Annotation Aggregator\<close>

text \<open>
  Modelled from the spec: the precedence of the missing module among the classes that
  match one gene (section 4.3): LOF, COPY\_GAIN, DUP\_PARTIAL, INV\_SPAN, INTRONIC.
\<close>

definition precedence :: "effect_class list" where
  "precedence = [LOF, COPY_GAIN, DUP_PARTIAL, INV_SPAN, INTRONIC]"

text \<open>
  Modelled from the spec: the primary class of an (SV, gene) pair in the missing module
  (section 3 and section 4.3), the first class in precedence that matches.
\<close>

definition primary_class :: "effect_class list \<Rightarrow> effect_class option" where
  "primary_class cs = find (\<lambda>c. c \<in> set cs) precedence"

text \<open>
  Modelled from the spec: the entry of the missing module's aggregator for one gene
  (section 4.4): the annotation of its primary class, or nothing when no rule matches.
\<close>

definition gene_entry :: "StructuralVariant \<Rightarrow> Gene \<Rightarrow> EffectAnnotation list" where
  "gene_entry sv g =
     (case primary_class (classification_rule sv g) of
        None \<Rightarrow> []
      | Some c \<Rightarrow> [\<lparr>ann_sv_id = sv_id sv, ann_class = c, gene_or_element_id = Some (gene_id g)\<rparr>])"

text \<open>
  Modelled from the spec: the intragenic SV of the missing module's fallback
  (section 4.4): its interval lies fully inside a gene boundary.
\<close>

definition intragenic :: "StructuralVariant \<Rightarrow> FeatureIndex \<Rightarrow> bool" where
  "intragenic sv idx =
     (case primary_interval sv of
        None \<Rightarrow> False
      | Some iv \<Rightarrow> (\<exists>g \<in> set (genes idx). lies_within iv (gene_interval g)))"

text \<open>
  Modelled from the spec: the fallback of the missing module's aggregator (section 4.4
  and section 8). The SV lies fully inside a gene and matches no class: it gets exactly
  one NEAREST\_TSS annotation, pointing to that gene. When several genes enclose the
  SV, \<open>nearest_tss\<close>, asked from the start of the SV's interval, chooses among them.
\<close>

definition fallback_entry :: "StructuralVariant \<Rightarrow> FeatureIndex \<Rightarrow> EffectAnnotation list" where
  "fallback_entry sv idx =
     (case primary_interval sv of
        None \<Rightarrow> []
      | Some iv \<Rightarrow>
          (case nearest_tss
                  (idx\<lparr>genes := filter (\<lambda>g. lies_within iv (gene_interval g)) (genes idx)\<rparr>)
                  (start iv) (chrom iv) of
             None \<Rightarrow> []
           | Some (g, d) \<Rightarrow>
               [\<lparr>ann_sv_id = sv_id sv, ann_class = NEAREST_TSS,
                 gene_or_element_id = Some (gene_id g)\<rparr>]))"

text \<open>
  Modelled from the spec: the noncoding entries of the missing module's aggregator
  (section 4.3 and section 4.4), sorted by element name. A noncoding element that the
  SV's interval overlaps gives a separate annotation naming the element; the element's
  class is a string of its own and not one of the effect classes, so the annotation
  carries NONE.
\<close>

definition noncoding_entries :: "StructuralVariant \<Rightarrow> FeatureIndex \<Rightarrow> EffectAnnotation list" where
  "noncoding_entries sv idx =
     (case primary_interval sv of
        None \<Rightarrow> []
      | Some iv \<Rightarrow>
          map (\<lambda>n. \<lparr>ann_sv_id = sv_id sv, ann_class = NONE, gene_or_element_id = Some (nc_name n)\<rparr>)
            (sort_key nc_name (overlapping_noncoding idx iv)))"

text \<open>
  Modelled from the spec: \<open>annotate(sv, feature_index)\<close> of the missing module
  (section 4.4). The rules give one entry per distinct gene touched, sorted by gene id;
  when no gene gets a class and the SV is intragenic, the fallback entry stands in their
  place; the entries for noncoding elements follow.
\<close>

definition annotate :: "StructuralVariant \<Rightarrow> FeatureIndex \<Rightarrow> EffectAnnotation list" where
  "annotate sv idx =
     (let rule_entries = concat (map (gene_entry sv) (sort_key gene_id (remdups (genes idx))));
          gene_entries = (if rule_entries = [] \<and> intragenic sv idx
                          then fallback_entry sv idx else rule_entries)
      in gene_entries @ noncoding_entries sv idx)"

subsection \<open>The scenario of the specification\<close>

text \<open>
  Modelled from the spec: the gene G of the concrete scenario of section 8, on chrom1,
  1000--5000, with the exons 1000--1200, 3000--3200 and 4800--5000.
\<close>

definition scenario_gene :: Gene where
  "scenario_gene =
     \<lparr>gene_id = ''G'',
      gene_interval = \<lparr>chrom = ''chrom1'', start = 1000, stop = 5000\<rparr>,
      exons = [\<lparr>chrom = ''chrom1'', start = 1000, stop = 1200\<rparr>,
               \<lparr>chrom = ''chrom1'', start = 3000, stop = 3200\<rparr>,
               \<lparr>chrom = ''chrom1'', start = 4800, stop = 5000\<rparr>],
      tss = 1000, gene_strand = Plus\<rparr>"

text \<open>A second gene, H, without exons, whose boundary encloses G and the region before it.\<close>

definition enclosing_gene :: Gene where
  "enclosing_gene =
     \<lparr>gene_id = ''H'',
      gene_interval = \<lparr>chrom = ''chrom1'', start = 0, stop = 8000\<rparr>,
      exons = [], tss = 0, gene_strand = Plus\<rparr>"

text \<open>A gene record with an empty interval.\<close>

definition malformed_scenario_gene :: Gene where
  "malformed_scenario_gene =
     \<lparr>gene_id = ''M'',
      gene_interval = \<lparr>chrom = ''chrom1'', start = 700, stop = 700\<rparr>,
      exons = [], tss = 700, gene_strand = Minus\<rparr>"

text \<open>Three noncoding elements, the second with an empty interval.\<close>

definition scenario_elements :: "NoncodingElement list" where
  "scenario_elements =
     [\<lparr>nc_chrom = ''chrom1'', nc_interval = \<lparr>chrom = ''chrom1'', start = 3100, stop = 3120\<rparr>,
       nc_class = ''enhancer'', nc_name = ''e2''\<rparr>,
      \<lparr>nc_chrom = ''chrom1'', nc_interval = \<lparr>chrom = ''chrom1'', start = 40, stop = 40\<rparr>,
       nc_class = ''enhancer'', nc_name = ''e0''\<rparr>,
      \<lparr>nc_chrom = ''chrom1'', nc_interval = \<lparr>chrom = ''chrom1'', start = 3000, stop = 3060\<rparr>,
       nc_class = ''promoter'', nc_name = ''e1''\<rparr>]"

text \<open>
  Modelled from the spec: an SV of the scenario of section 8, of a given type, on chrom1
  from \<open>a\<close> to \<open>b\<close>, with its breakpoints at the two ends of its interval (section 4.2).
\<close>

definition scenario_sv :: "sv_type \<Rightarrow> int \<Rightarrow> int \<Rightarrow> StructuralVariant" where
  "scenario_sv t a b =
     \<lparr>sv_id = ''sv1'', svtype = t,
      primary_interval = Some \<lparr>chrom = ''chrom1'', start = a, stop = b\<rparr>,
      breakpoint_a = (''chrom1'', a), breakpoint_b = (''chrom1'', b)\<rparr>"

section \<open>Properties of the enrichment test\<close>

subsection \<open>The null score\<close>

text \<open>
  Claim C8. If no row of the counts table belongs to a called or a background sample,
  \<open>PESRTest.test\<close> returns the null score, the series with 0.0 under each of
  \<open>background\<close>, \<open>called\<close> and \<open>log_pval\<close>; no median and no p-value is computed.
\<close>

theorem test_null_score:
  assumes "restrict_counts counts (called_samples @ bg) = []"
  shows "test poisson_cdf lg counts called_samples bg = Inr (null_score 0) \<and>
         null_score 0 = \<lparr>background = 0, called = 0, log_pval = 0\<rparr>"
  using assms by (simp add: test_def null_score_def)

theorem test_null_score_witness:
  "restrict_counts [(''x'', 4)] ([''a''] @ [''b'']) = [] \<and>
   test poisson_cdf_real (log 10) [(''x'', 4)] [''a''] [''b'']
     = Inr \<lparr>background = 0, called = 0, log_pval = 0\<rparr>"
  using test_null_score [where counts = "[(''x'', 4)]" and called_samples = "[''a'']"
      and bg = "[''b'']" and poisson_cdf = poisson_cdf_real and lg = "log 10"]
  by (simp add: restrict_counts_def null_score_def)

subsection \<open>Medians and the Poisson p-value\<close>

lemma median_all_zero:
  assumes "\<forall>x \<in> set xs. x = 0"
  shows "fillna0 (median xs) = 0"
proof -
  have z: "\<And>i. i < length xs \<Longrightarrow> sort xs ! i = 0"
    using assms by (metis length_sort nth_mem set_sort)
  show ?thesis
  proof (cases "xs = []")
    case True then show ?thesis by (simp add: median_def fillna0_def)
  next
    case False
    then have "0 < length xs" by simp
    then have "length xs div 2 < length xs" "length xs div 2 - 1 < length xs" by linarith+
    then show ?thesis using z by (simp add: median_def fillna0_def Let_def)
  qed
qed

lemma map_of_restrict:
  "s \<in> set keep \<Longrightarrow> map_of (restrict_counts counts keep) s = map_of counts s"
  by (induction counts) (auto simp: restrict_counts_def)

lemma count_of_restrict:
  "s \<in> set keep \<Longrightarrow>
   fillna0 (map_option real_of_int (map_of (restrict_counts counts keep) s)) = count_of counts s"
  by (simp add: map_of_restrict count_of_def fillna0_def split: option.splits)

lemma restrict_empty_count:
  assumes "restrict_counts counts keep = []" and "s \<in> set keep"
  shows "count_of counts s = 0"
proof -
  have "map_of (restrict_counts counts keep) s = map_of counts s"
    using assms(2) by (rule map_of_restrict)
  then show ?thesis using assms(1) by (simp add: count_of_def)
qed

lemma reindex_counts_distinct:
  assumes "distinct (map fst counts)"
  shows "reindex_counts counts labels =
     Inr (map (\<lambda>s. (s, fillna0 (map_option real_of_int (map_of counts s)))) labels)"
proof (cases "map fst counts = labels")
  case True
  have "map (\<lambda>(s, c). (s, real_of_int c)) counts =
        map (\<lambda>s. (s, fillna0 (map_option real_of_int (map_of counts s)))) (map fst counts)"
    using assms by (auto simp: fillna0_def)
  then show ?thesis using True by (simp add: reindex_counts_def)
next
  case False
  then show ?thesis using assms by (simp add: reindex_counts_def)
qed

lemma group_called:
  "group_counts (label_called (map (\<lambda>s. (s, f s)) labels) cs) b
   = map f (filter (\<lambda>s. (s \<in> set cs) = b) labels)"
  by (induction labels) (auto simp: group_counts_def label_called_def)

text \<open>
  Claim C7. The test compares the called and the background samples by the median of
  their per-sample read counts, and reports the absolute base-10 logarithm of the
  Poisson distribution function of the background median at a rate equal to the called
  median: \<open>test\<close> returns what \<open>enrichment_spec\<close> says. The table holds at most one row
  per requested sample (otherwise pandas raises, or a sample enters a median once per
  row), no sample is both called and
  background, and the library functions give \<open>log10 (cdf 0 0) = 0\<close>, so that the null
  score of an empty restriction is the same value.
\<close>

theorem test_median_poisson:
  assumes d: "distinct (map fst (restrict_counts counts (called_samples @ bg)))"
    and disj: "set called_samples \<inter> set bg = {}"
    and unit: "lg (poisson_cdf 0 0) = 0"
  shows "test poisson_cdf lg counts called_samples bg =
           Inr (enrichment_spec poisson_cdf lg counts called_samples bg)"
proof (cases "restrict_counts counts (called_samples @ bg) = []")
  case True
  have "fillna0 (median (map (count_of counts) called_samples)) = 0"
    "fillna0 (median (map (count_of counts) bg)) = 0"
    using restrict_empty_count[OF True] by (auto intro!: median_all_zero)
  then show ?thesis using True unit
    by (simp add: test_def enrichment_spec_def null_score_def)
next
  case False
  let ?labels = "called_samples @ bg"
  let ?f = "\<lambda>s. fillna0 (map_option real_of_int (map_of (restrict_counts counts ?labels) s))"
  have ri: "reindex_counts (restrict_counts counts ?labels) ?labels = Inr (map (\<lambda>s. (s, ?f s)) ?labels)"
    using d by (rule reindex_counts_distinct)
  have ft: "filter (\<lambda>s. (s \<in> set called_samples) = True) ?labels = called_samples"
    using disj by (auto simp: filter_empty_conv)
  have ff: "filter (\<lambda>s. (s \<in> set called_samples) = False) ?labels = bg"
    using disj by (auto simp: filter_empty_conv intro: filter_True)
  have mc: "map ?f called_samples = map (count_of counts) called_samples"
    by (rule map_cong) (simp_all add: count_of_restrict)
  have mb: "map ?f bg = map (count_of counts) bg"
    by (rule map_cong) (simp_all add: count_of_restrict)
  show ?thesis
    using False
    by (simp only: test_def Let_def ri enrichment_spec_def group_called ft ff mc mb
        length_0_conv if_False sum.case)
qed

theorem test_median_poisson_witness:
  "distinct (map fst (restrict_counts [(''a'', 5), (''b'', 1), (''z'', 9), (''c'', 2)]
      ([''a''] @ [''b'', ''c'']))) \<and>
   set [''a''] \<inter> set [''b'', ''c''] = {} \<and>
   log 10 (poisson_cdf_real 0 0) = 0 \<and>
   test poisson_cdf_real (log 10) [(''a'', 5), (''b'', 1), (''z'', 9), (''c'', 2)]
      [''a''] [''b'', ''c'']
     = Inr \<lparr>background = 3 / 2, called = 5,
            log_pval = \<bar>log 10 (poisson_cdf_real (3 / 2) 5)\<bar>\<rparr>"
proof -
  have d: "distinct (map fst (restrict_counts [(''a'', 5), (''b'', 1), (''z'', 9), (''c'', 2)]
      ([''a''] @ [''b'', ''c''])))"
    by (simp add: restrict_counts_def)
  have i: "set [''a''] \<inter> set [''b'', ''c''] = {}" by simp
  have u: "log 10 (poisson_cdf_real 0 0) = 0" by (simp add: poisson_cdf_real_def)
  have m: "enrichment_spec poisson_cdf_real (log 10) [(''a'', 5), (''b'', 1), (''z'', 9), (''c'', 2)]
      [''a''] [''b'', ''c'']
     = \<lparr>background = 3 / 2, called = 5,
            log_pval = \<bar>log 10 (poisson_cdf_real (3 / 2) 5)\<bar>\<rparr>"
    by (simp add: enrichment_spec_def count_of_def median_def fillna0_def Let_def)
  show ?thesis
    using test_median_poisson [where counts = "[(''a'', 5), (''b'', 1), (''z'', 9), (''c'', 2)]"
        and called_samples = "[''a'']" and bg = "[''b'', ''c'']"
        and poisson_cdf = poisson_cdf_real and lg = "log 10", OF d i u, unfolded m] d i u
    by blast
qed

subsection \<open>Choice of the background samples\<close>

lemma perm_facts:
  assumes "mset p = mset [0..<n]"
  shows "distinct p" and "set p = {0..<n}" and "length p = n"
proof -
  show "distinct p" using assms by (metis distinct_upt mset_eq_imp_distinct_iff)
  show "set p = {0..<n}" using assms by (metis mset_eq_setD set_upt)
  show "length p = n" using assms by (metis length_upt mset_eq_length minus_nat.diff_0)
qed

lemma random_choice_props:
  assumes p: "mset (rng (length a)) = mset [0..<length a]"
    and r: "random_choice rng a n = Inr b"
  shows "set b \<subseteq> set a" and "int (length b) = n" and "distinct a \<Longrightarrow> distinct b"
proof -
  let ?p = "rng (length a)"
  from r have n: "0 \<le> n" "n \<le> int (length a)"
    and b: "b = map (\<lambda>i. a ! i) (take (nat n) ?p)"
    by (auto simp: random_choice_def split: if_splits)
  have idx: "\<forall>i \<in> set (take (nat n) ?p). i < length a"
    using perm_facts(2)[OF p] by (auto dest: in_set_takeD)
  show "set b \<subseteq> set a" using idx by (auto simp: b)
  show "int (length b) = n" using n perm_facts(3)[OF p] by (simp add: b)
  show "distinct b" if "distinct a"
    unfolding b using that idx perm_facts(1)[OF p]
    by (simp add: distinct_map inj_on_nth)
qed

text \<open>
  Claim C9. For every record \<open>choose_background\<close> returns a pair (called, background) in
  which no sample is in both lists, every sample is in the whitelist in force and not in
  the blacklist in force, and the background has at most \<open>n_background\<close> samples, none
  twice. The samples of a VCF header are distinct, and the generator draws
  permutations. The call raises only for a negative \<open>n_background\<close>.
\<close>

theorem choose_background_partition:
  assumes d: "distinct (samples self)"
    and p: "\<And>n. mset (rng n) = mset [0..<n]"
  shows "case choose_background get_called_samples rng self vcf_record wl_arg bl_arg of
           Inl e \<Rightarrow> n_background self < 0
         | Inr (c, b) \<Rightarrow>
             set c \<inter> set b = {} \<and>
             set c \<union> set b \<subseteq> set (effective_whitelist self wl_arg) - set (effective_blacklist self bl_arg) \<and>
             int (length b) \<le> n_background self \<and> distinct b"
proof -
  define wl where "wl = effective_whitelist self wl_arg"
  define bl where "bl = effective_blacklist self bl_arg"
  define called0 where "called0 = get_called_samples vcf_record"
  define c1 where "c1 = filter (\<lambda>s. s \<notin> set bl) (filter (\<lambda>s. s \<in> set wl) called0)"
  define b1 where "b1 = filter (\<lambda>s. s \<notin> set bl)
     (filter (\<lambda>s. s \<in> set wl) (filter (\<lambda>s. s \<notin> set called0) (samples self)))"
  have cb: "choose_background get_called_samples rng self vcf_record wl_arg bl_arg =
     (if int (length b1) \<ge> n_background self
      then (case random_choice rng b1 (n_background self) of
              Inl e \<Rightarrow> Inl e | Inr b2 \<Rightarrow> Inr (c1, b2))
      else Inr (c1, b1))"
    unfolding choose_background_def Let_def c1_def b1_def called0_def wl_def bl_def
        effective_whitelist_def effective_blacklist_def ..
  have c1: "set c1 \<subseteq> set wl - set bl" "set c1 \<subseteq> set called0" by (auto simp: c1_def)
  have b1: "set b1 \<subseteq> set wl - set bl" "set b1 \<inter> set called0 = {}" "distinct b1"
    using d by (auto simp: b1_def)
  show ?thesis
  proof (cases "int (length b1) \<ge> n_background self")
    case False
    then show ?thesis using c1 b1 by (auto simp: cb wl_def bl_def)
  next
    case True
    show ?thesis
    proof (cases "random_choice rng b1 (n_background self)")
      case (Inl e)
      then have "n_background self < 0" using True
        by (auto simp: random_choice_def split: if_splits)
      then show ?thesis using True Inl by (simp add: cb)
    next
      case (Inr b2)
      note rc = random_choice_props[OF p Inr]
      have "set b2 \<subseteq> set b1" "int (length b2) = n_background self" "distinct b2"
        using rc b1(3) by auto
      then show ?thesis using True Inr c1 b1 by (auto simp: cb wl_def bl_def)
    qed
  qed
qed

theorem choose_background_partition_witness:
  "distinct (samples (PESRTestRunner_init [''a'', ''b'', ''c'', ''d'', ''e''] (Some 2) None (Some [''d'']))) \<and>
   (\<forall>n. mset (rev [0..<n]) = mset [0..<n]) \<and>
   choose_background (\<lambda>r. r) (\<lambda>n. rev [0..<n])
      (PESRTestRunner_init [''a'', ''b'', ''c'', ''d'', ''e''] (Some 2) None (Some [''d'']))
      [''a''] None None = Inr ([''a''], [''e'', ''c'']) \<and>
   n_background (PESRTestRunner_init [''a'', ''b'', ''c'', ''d'', ''e''] None None None) = 160 \<and>
   (case choose_background (\<lambda>r. r) (\<lambda>n. rev [0..<n])
      (PESRTestRunner_init [''a'', ''b'', ''c'', ''d'', ''e''] (Some 2) None (Some [''d'']))
      [''a''] None None of
     Inl e \<Rightarrow> False
   | Inr (c, b) \<Rightarrow> set c \<inter> set b = {} \<and> int (length b) \<le> 2 \<and> distinct b)"
proof -
  let ?self = "PESRTestRunner_init [''a'', ''b'', ''c'', ''d'', ''e''] (Some 2) None (Some [''d''])"
  have d: "distinct (samples ?self)" by (simp add: PESRTestRunner_init_def)
  have p: "\<And>n. mset (rev [0..<n]) = mset [0..<n]" by simp
  have e: "choose_background (\<lambda>r. r) (\<lambda>n. rev [0..<n]) ?self [''a''] None None
             = Inr ([''a''], [''e'', ''c''])"
    by (simp add: choose_background_def PESRTestRunner_init_def or_default_def
        random_choice_def Let_def upt_rec)
  show ?thesis
    using choose_background_partition [where self = ?self and rng = "\<lambda>n. rev [0..<n]"
        and get_called_samples = "\<lambda>r. r" and vcf_record = "[''a'']" and wl_arg = None
        and bl_arg = None, OF d p] d p e by (simp add: PESRTestRunner_init_def)
qed

section \<open>Properties of the command line\<close>

text \<open>
  Claim C10, as amended. When the command line is not empty, the parser accepts it, and
  neither a gencode annotation file nor a noncoding element file is supplied, \<open>main\<close>
  writes the error to standard error, prints the help text and exits with status 1,
  without opening the input VCF or any other file and without annotating. On an empty
  command line \<open>main\<close> prints the help text alone and exits with status 1.
\<close>

theorem main_without_sources:
  "(argv = [] \<longrightarrow> main parse_args argv = ([PrintHelp], SystemExit 1)) \<and>
   (argv \<noteq> [] \<and> parse_args argv = Inr a \<and> gencode a = None \<and> noncoding a = None \<longrightarrow>
      main parse_args argv = ([StderrWrite missing_sources_error, PrintHelp], SystemExit 1) \<and>
      \<not> list_ex touches_files (fst (main parse_args argv)))"
  by (simp add: main_def touches_files_def)

theorem main_without_sources_witness:
  "[''in.vcf'', ''out.vcf''] \<noteq> [] \<and>
   parse_args_model [''in.vcf'', ''out.vcf'']
     = Inr \<lparr>vcf = ''in.vcf'', gencode = None, noncoding = None, annotated_vcf = ''out.vcf''\<rparr> \<and>
   main parse_args_model [''in.vcf'', ''out.vcf'']
     = ([StderrWrite missing_sources_error, PrintHelp], SystemExit 1) \<and>
   main parse_args_model [] = ([PrintHelp], SystemExit 1)"
proof -
  have p: "parse_args_model [''in.vcf'', ''out.vcf'']
     = Inr \<lparr>vcf = ''in.vcf'', gencode = None, noncoding = None, annotated_vcf = ''out.vcf''\<rparr>"
    by (simp add: parse_args_model_def)
  show ?thesis
    using main_without_sources [where argv = "[''in.vcf'', ''out.vcf'']" and parse_args = parse_args_model
        and a = "\<lparr>vcf = ''in.vcf'', gencode = None, noncoding = None, annotated_vcf = ''out.vcf''\<rparr>"]
      main_without_sources [where argv = "[]" and parse_args = parse_args_model] p
    by simp
qed

text \<open>
  The claim as first stated fails on the empty command line: neither file is supplied,
  and no error is written, only the help text.
\<close>

theorem main_empty_argv_counterexample:
  "''--gencode'' \<notin> set [] \<and> ''--noncoding'' \<notin> set [] \<and>
   main parse_args_model [] = ([PrintHelp], SystemExit 1) \<and>
   main parse_args_model [] \<noteq> ([StderrWrite missing_sources_error, PrintHelp], SystemExit 1) \<and>
   StderrWrite missing_sources_error \<notin> set (fst (main parse_args_model []))"
  by (simp add: main_def)

section \<open>Properties of the classification engine\<close>

subsection \<open>The loader of the Feature Index\<close>

lemma foldl_load_gene:
  "foldl load_gene (idx, errs) gs =
     (idx\<lparr>genes := genes idx @ filter (\<lambda>g. \<not> malformed_gene g) gs\<rparr>,
      errs @ map (\<lambda>g. MalformedFeature (gene_id g)) (filter malformed_gene gs))"
  by (induction gs arbitrary: idx errs) (simp_all add: load_gene_def)

lemma foldl_load_noncoding:
  "foldl load_noncoding (idx, errs) ns =
     (idx\<lparr>noncoding_elements := noncoding_elements idx @ filter (\<lambda>n. \<not> malformed (nc_interval n)) ns\<rparr>,
      errs @ map (\<lambda>n. MalformedFeature (nc_name n)) (filter (\<lambda>n. malformed (nc_interval n)) ns))"
  by (induction ns arbitrary: idx errs) (simp_all add: load_noncoding_def)

lemma build_result:
  "build gs ns =
     (\<lparr>genes = filter (\<lambda>g. \<not> malformed_gene g) gs,
       noncoding_elements = filter (\<lambda>n. \<not> malformed (nc_interval n)) ns\<rparr>,
      map (\<lambda>g. MalformedFeature (gene_id g)) (filter malformed_gene gs) @
      map (\<lambda>n. MalformedFeature (nc_name n)) (filter (\<lambda>n. malformed (nc_interval n)) ns))"
  by (simp add: build_def foldl_load_gene foldl_load_noncoding)

text \<open>
  Claim C6. A reference record with a malformed interval (\<open>end <= start\<close>) gets a
  MalformedFeature error in the log and is left out of the index; the load goes on, so
  that the index holds every other record, in input order, and the log one error per
  malformed record. \<open>build\<close> is a total function: it always returns an index.
\<close>

theorem build_skips_malformed:
  "(\<forall>g \<in> set gs. malformed_gene g \<longrightarrow>
      MalformedFeature (gene_id g) \<in> set (snd (build gs ns)) \<and>
      g \<notin> set (genes (fst (build gs ns)))) \<and>
   (\<forall>n \<in> set ns. malformed (nc_interval n) \<longrightarrow>
      MalformedFeature (nc_name n) \<in> set (snd (build gs ns)) \<and>
      n \<notin> set (noncoding_elements (fst (build gs ns)))) \<and>
   genes (fst (build gs ns)) = filter (\<lambda>g. \<not> malformed_gene g) gs \<and>
   noncoding_elements (fst (build gs ns)) = filter (\<lambda>n. \<not> malformed (nc_interval n)) ns \<and>
   length (snd (build gs ns)) =
     length (filter malformed_gene gs) + length (filter (\<lambda>n. malformed (nc_interval n)) ns)"
  by (auto simp: build_result)

theorem build_skips_malformed_witness:
  "malformed_gene malformed_scenario_gene \<and>
   malformed_scenario_gene \<in> set [scenario_gene, malformed_scenario_gene, enclosing_gene] \<and>
   MalformedFeature ''M''
     \<in> set (snd (build [scenario_gene, malformed_scenario_gene, enclosing_gene] scenario_elements)) \<and>
   genes (fst (build [scenario_gene, malformed_scenario_gene, enclosing_gene] scenario_elements))
     = [scenario_gene, enclosing_gene] \<and>
   length (snd (build [scenario_gene, malformed_scenario_gene, enclosing_gene] scenario_elements)) = 2"
proof -
  have m: "malformed_gene malformed_scenario_gene"
    by (simp add: malformed_gene_def malformed_def malformed_scenario_gene_def)
  have i: "malformed_scenario_gene \<in> set [scenario_gene, malformed_scenario_gene, enclosing_gene]"
    by simp
  have g: "gene_id malformed_scenario_gene = ''M''" by (simp add: malformed_scenario_gene_def)
  have f: "filter (\<lambda>g. \<not> malformed_gene g) [scenario_gene, malformed_scenario_gene, enclosing_gene]
      = [scenario_gene, enclosing_gene]"
    "length (filter malformed_gene [scenario_gene, malformed_scenario_gene, enclosing_gene]) = 1"
    "length (filter (\<lambda>n. malformed (nc_interval n)) scenario_elements) = 1"
    by (simp_all add: malformed_gene_def malformed_def scenario_gene_def enclosing_gene_def
        malformed_scenario_gene_def scenario_elements_def)
  show ?thesis
    using build_skips_malformed [of "[scenario_gene, malformed_scenario_gene, enclosing_gene]"
        scenario_elements] m i g f
    by (metis one_add_one)
qed

subsection \<open>From the rules to the output of the aggregator\<close>

lemma primary_class_LOF: "LOF \<in> set cs \<Longrightarrow> primary_class cs = Some LOF"
  by (simp add: primary_class_def precedence_def)

lemma gene_entry_in_annotate:
  assumes "g \<in> set (genes idx)" and "x \<in> set (gene_entry sv g)"
  shows "x \<in> set (annotate sv idx)"
proof -
  define r where "r = concat (map (gene_entry sv) (sort_key gene_id (remdups (genes idx))))"
  have a: "annotate sv idx =
      (if r = [] \<and> intragenic sv idx then fallback_entry sv idx else r) @ noncoding_entries sv idx"
    unfolding annotate_def Let_def r_def ..
  have x: "x \<in> set r" using assms by (auto simp: r_def)
  then have "r \<noteq> []" by (metis empty_iff empty_set)
  with x show ?thesis unfolding a by simp
qed

lemma annotate_origin:
  assumes "x \<in> set (annotate sv idx)"
  shows "(\<exists>g \<in> set (genes idx). x \<in> set (gene_entry sv g)) \<or>
         (x \<in> set (fallback_entry sv idx) \<and> intragenic sv idx) \<or> x \<in> set (noncoding_entries sv idx)"
  using assms by (auto simp: annotate_def Let_def split: if_splits)

lemma fallback_class: "x \<in> set (fallback_entry sv idx) \<Longrightarrow> ann_class x = NEAREST_TSS"
  by (auto simp: fallback_entry_def split: option.splits)

lemma noncoding_class: "x \<in> set (noncoding_entries sv idx) \<Longrightarrow> ann_class x = NONE"
  by (auto simp: noncoding_entries_def split: option.splits)

lemma gene_entry_id: "x \<in> set (gene_entry sv g) \<Longrightarrow>
   gene_or_element_id x = Some (gene_id g) \<and> primary_class (classification_rule sv g) = Some (ann_class x)"
  by (auto simp: gene_entry_def split: option.splits)


lemma scenario_index_genes: "genes (fst (build [scenario_gene] ns)) = [scenario_gene]"
  by (simp add: build_result malformed_gene_def malformed_def scenario_gene_def)

lemma scenario_gene_invariant: "gene_invariant scenario_gene"
  by (simp add: gene_invariant_def lies_within_def scenario_gene_def)

subsection \<open>Deletions\<close>

text \<open>
  Claim C1. A deletion whose primary interval has a non-empty intersection with an exon
  of a gene in the feature index gets an LOF annotation for that gene.
\<close>

theorem del_exon_overlap_lof:
  assumes "svtype sv = DEL" and "primary_interval sv = Some iv"
    and "g \<in> set (genes idx)" and "e \<in> set (exons g)" and "overlaps iv e"
  shows "\<lparr>ann_sv_id = sv_id sv, ann_class = LOF, gene_or_element_id = Some (gene_id g)\<rparr>
           \<in> set (annotate sv idx)"
proof -
  have "LOF \<in> set (classification_rule sv g)"
    using assms by (auto simp: classification_rule_def del_rule_def exon_overlap_def)
  then have "gene_entry sv g =
      [\<lparr>ann_sv_id = sv_id sv, ann_class = LOF, gene_or_element_id = Some (gene_id g)\<rparr>]"
    by (simp add: gene_entry_def primary_class_LOF)
  then show ?thesis using gene_entry_in_annotate[OF assms(3)] by simp
qed

theorem del_exon_overlap_lof_witness:
  "svtype (scenario_sv DEL 3050 3150) = DEL \<and>
   primary_interval (scenario_sv DEL 3050 3150) = Some \<lparr>chrom = ''chrom1'', start = 3050, stop = 3150\<rparr> \<and>
   scenario_gene \<in> set (genes (fst (build [scenario_gene] []))) \<and>
   \<lparr>chrom = ''chrom1'', start = 3000, stop = 3200\<rparr> \<in> set (exons scenario_gene) \<and>
   overlaps \<lparr>chrom = ''chrom1'', start = 3050, stop = 3150\<rparr> \<lparr>chrom = ''chrom1'', start = 3000, stop = 3200\<rparr> \<and>
   \<lparr>ann_sv_id = ''sv1'', ann_class = LOF, gene_or_element_id = Some ''G''\<rparr>
     \<in> set (annotate (scenario_sv DEL 3050 3150) (fst (build [scenario_gene] [])))"
proof -
  have h1: "svtype (scenario_sv DEL 3050 3150) = DEL" by (simp add: scenario_sv_def)
  have h2: "primary_interval (scenario_sv DEL 3050 3150) = Some \<lparr>chrom = ''chrom1'', start = 3050, stop = 3150\<rparr>"
    by (simp add: scenario_sv_def)
  have h3: "scenario_gene \<in> set (genes (fst (build [scenario_gene] [])))"
    by (simp add: build_def load_gene_def malformed_gene_def malformed_def scenario_gene_def)
  have h4: "\<lparr>chrom = ''chrom1'', start = 3000, stop = 3200\<rparr> \<in> set (exons scenario_gene)"
    by (simp add: scenario_gene_def)
  have h5: "overlaps \<lparr>chrom = ''chrom1'', start = 3050, stop = 3150\<rparr> \<lparr>chrom = ''chrom1'', start = 3000, stop = 3200\<rparr>"
    by (simp add: overlaps_def)
  have c: "sv_id (scenario_sv DEL 3050 3150) = ''sv1''" "gene_id scenario_gene = ''G''"
    by (simp_all add: scenario_sv_def scenario_gene_def)
  show ?thesis
    using del_exon_overlap_lof [OF h1 h2 h3 h4 h5] h1 h2 h3 h4 h5 unfolding c by blast
qed

subsection \<open>Duplications\<close>

lemma dup_span_classes:
  assumes "svtype sv = DUP" and "primary_interval sv = Some iv"
    and "strictly_contains iv (gene_interval g)"
  shows "LOF \<notin> set (classification_rule sv g)" "COPY_GAIN \<in> set (classification_rule sv g)"
    "DUP_PARTIAL \<notin> set (classification_rule sv g)"
  using assms
  by (auto simp: classification_rule_def dup_rule_def Let_def strictly_contains_def lies_within_def)

text \<open>
  Claim C2. A duplication whose primary interval strictly contains the boundary of a
  gene in the feature index gets COPY\_GAIN for that gene; the rules give no
  DUP\_PARTIAL for the gene, and when the gene's id belongs to no other gene of the
  index, the output has no DUP\_PARTIAL annotation under that id.
\<close>

theorem dup_span_copy_gain:
  assumes "svtype sv = DUP" and "primary_interval sv = Some iv"
    and "g \<in> set (genes idx)" and "strictly_contains iv (gene_interval g)"
  shows "\<lparr>ann_sv_id = sv_id sv, ann_class = COPY_GAIN, gene_or_element_id = Some (gene_id g)\<rparr>
           \<in> set (annotate sv idx) \<and>
         DUP_PARTIAL \<notin> set (classification_rule sv g) \<and>
         ((\<forall>g' \<in> set (genes idx). gene_id g' = gene_id g \<longrightarrow> g' = g) \<longrightarrow>
          \<lparr>ann_sv_id = sv_id sv, ann_class = DUP_PARTIAL, gene_or_element_id = Some (gene_id g)\<rparr>
             \<notin> set (annotate sv idx))"
proof -
  note c = dup_span_classes[OF assms(1,2,4)]
  have pc: "primary_class (classification_rule sv g) = Some COPY_GAIN"
    using c(1,2) by (simp add: primary_class_def precedence_def)
  then have "gene_entry sv g =
      [\<lparr>ann_sv_id = sv_id sv, ann_class = COPY_GAIN, gene_or_element_id = Some (gene_id g)\<rparr>]"
    by (simp add: gene_entry_def)
  then have 1: "\<lparr>ann_sv_id = sv_id sv, ann_class = COPY_GAIN, gene_or_element_id = Some (gene_id g)\<rparr>
           \<in> set (annotate sv idx)"
    using gene_entry_in_annotate[OF assms(3)] by simp
  have 3: "\<lparr>ann_sv_id = sv_id sv, ann_class = DUP_PARTIAL, gene_or_element_id = Some (gene_id g)\<rparr>
             \<notin> set (annotate sv idx)"
    if u: "\<forall>g' \<in> set (genes idx). gene_id g' = gene_id g \<longrightarrow> g' = g"
  proof
    let ?x = "\<lparr>ann_sv_id = sv_id sv, ann_class = DUP_PARTIAL, gene_or_element_id = Some (gene_id g)\<rparr>"
    assume "?x \<in> set (annotate sv idx)"
    from annotate_origin[OF this] show False
    proof (elim disjE bexE conjE)
      fix g' assume g': "g' \<in> set (genes idx)" "?x \<in> set (gene_entry sv g')"
      from gene_entry_id[OF g'(2)] have "gene_id g' = gene_id g"
        "primary_class (classification_rule sv g') = Some DUP_PARTIAL" by simp_all
      with u g'(1) pc show False by auto
    next
      assume "?x \<in> set (fallback_entry sv idx)"
      from fallback_class[OF this] show False by simp
    next
      assume "?x \<in> set (noncoding_entries sv idx)"
      from noncoding_class[OF this] show False by simp
    qed
  qed
  from 1 c(3) 3 show ?thesis by blast
qed

theorem dup_span_copy_gain_witness:
  "svtype (scenario_sv DUP 500 6000) = DUP \<and>
   primary_interval (scenario_sv DUP 500 6000)
     = Some \<lparr>chrom = ''chrom1'', start = 500, stop = 6000\<rparr> \<and>
   scenario_gene \<in> set (genes (fst (build [scenario_gene] []))) \<and>
   strictly_contains \<lparr>chrom = ''chrom1'', start = 500, stop = 6000\<rparr> (gene_interval scenario_gene) \<and>
   \<lparr>ann_sv_id = ''sv1'', ann_class = COPY_GAIN, gene_or_element_id = Some ''G''\<rparr>
     \<in> set (annotate (scenario_sv DUP 500 6000) (fst (build [scenario_gene] []))) \<and>
   DUP_PARTIAL \<notin> set (classification_rule (scenario_sv DUP 500 6000) scenario_gene) \<and>
   \<lparr>ann_sv_id = ''sv1'', ann_class = DUP_PARTIAL, gene_or_element_id = Some ''G''\<rparr>
     \<notin> set (annotate (scenario_sv DUP 500 6000) (fst (build [scenario_gene] [])))"
proof -
  have h1: "svtype (scenario_sv DUP 500 6000) = DUP" by (simp add: scenario_sv_def)
  have h2: "primary_interval (scenario_sv DUP 500 6000)
      = Some \<lparr>chrom = ''chrom1'', start = 500, stop = 6000\<rparr>"
    by (simp add: scenario_sv_def)
  have h3: "scenario_gene \<in> set (genes (fst (build [scenario_gene] [])))"
    by (simp add: scenario_index_genes)
  have h4: "strictly_contains \<lparr>chrom = ''chrom1'', start = 500, stop = 6000\<rparr>
      (gene_interval scenario_gene)"
    by (simp add: strictly_contains_def scenario_gene_def)
  have h5: "\<forall>g' \<in> set (genes (fst (build [scenario_gene] []))).
      gene_id g' = gene_id scenario_gene \<longrightarrow> g' = scenario_gene"
    by (simp add: scenario_index_genes)
  have c: "sv_id (scenario_sv DUP 500 6000) = ''sv1''" "gene_id scenario_gene = ''G''"
    by (simp_all add: scenario_sv_def scenario_gene_def)
  show ?thesis
    using dup_span_copy_gain [OF h1 h2 h3 h4] h1 h2 h3 h4 h5 unfolding c by blast
qed

subsection \<open>Inversions\<close>

text \<open>
  Claim C3. An inversion whose breakpoints both fall outside every gene of the index
  and whose primary interval strictly contains the boundary of a gene gets INV\_SPAN for
  that gene. The gene satisfies the invariant of the data model: its exons lie within
  its boundary.
\<close>

theorem inv_span_annotated:
  assumes "svtype sv = INV" and "primary_interval sv = Some iv"
    and "g \<in> set (genes idx)" and "gene_invariant g"
    and out: "\<forall>g' \<in> set (genes idx). \<not> falls_within (breakpoint_a sv) (gene_interval g') \<and>
                                   \<not> falls_within (breakpoint_b sv) (gene_interval g')"
    and "strictly_contains iv (gene_interval g)"
  shows "\<lparr>ann_sv_id = sv_id sv, ann_class = INV_SPAN, gene_or_element_id = Some (gene_id g)\<rparr>
           \<in> set (annotate sv idx)"
proof -
  have o: "\<not> falls_within (breakpoint_a sv) (gene_interval g)"
    "\<not> falls_within (breakpoint_b sv) (gene_interval g)"
    using out assms(3) by auto
  have ex: "\<not> in_exon (breakpoint_a sv) g" "\<not> in_exon (breakpoint_b sv) g"
    using o assms(4) by (auto simp: in_exon_def gene_invariant_def falls_within_def lies_within_def)
  have nw: "\<not> lies_within iv (gene_interval g)"
    using assms(6) by (auto simp: strictly_contains_def lies_within_def)
  have ne: "\<not> (\<exists>e \<in> set (exons g). lies_within iv e)"
    using nw assms(4) by (auto simp: gene_invariant_def lies_within_def)
  have "LOF \<notin> set (classification_rule sv g)" "INV_SPAN \<in> set (classification_rule sv g)"
    using assms(1,2,6) o ex nw ne
    by (auto simp: classification_rule_def inv_rule_def Let_def)
  moreover have "COPY_GAIN \<notin> set (classification_rule sv g)" "DUP_PARTIAL \<notin> set (classification_rule sv g)"
    using assms(1,2) by (auto simp: classification_rule_def inv_rule_def Let_def)
  ultimately have "primary_class (classification_rule sv g) = Some INV_SPAN"
    by (simp add: primary_class_def precedence_def)
  then have "gene_entry sv g =
      [\<lparr>ann_sv_id = sv_id sv, ann_class = INV_SPAN, gene_or_element_id = Some (gene_id g)\<rparr>]"
    by (simp add: gene_entry_def)
  then show ?thesis using gene_entry_in_annotate[OF assms(3)] by simp
qed

theorem inv_span_annotated_witness:
  "svtype (scenario_sv INV 500 6000) = INV \<and>
   primary_interval (scenario_sv INV 500 6000)
     = Some \<lparr>chrom = ''chrom1'', start = 500, stop = 6000\<rparr> \<and>
   genes (fst (build [scenario_gene] [])) = [scenario_gene] \<and>
   gene_invariant scenario_gene \<and>
   \<not> falls_within (breakpoint_a (scenario_sv INV 500 6000)) (gene_interval scenario_gene) \<and>
   \<not> falls_within (breakpoint_b (scenario_sv INV 500 6000)) (gene_interval scenario_gene) \<and>
   strictly_contains \<lparr>chrom = ''chrom1'', start = 500, stop = 6000\<rparr> (gene_interval scenario_gene) \<and>
   \<lparr>ann_sv_id = ''sv1'', ann_class = INV_SPAN, gene_or_element_id = Some ''G''\<rparr>
     \<in> set (annotate (scenario_sv INV 500 6000) (fst (build [scenario_gene] [])))"
proof -
  have h1: "svtype (scenario_sv INV 500 6000) = INV" by (simp add: scenario_sv_def)
  have h2: "primary_interval (scenario_sv INV 500 6000)
      = Some \<lparr>chrom = ''chrom1'', start = 500, stop = 6000\<rparr>"
    by (simp add: scenario_sv_def)
  have h3: "scenario_gene \<in> set (genes (fst (build [scenario_gene] [])))"
    by (simp add: scenario_index_genes)
  have h4: "gene_invariant scenario_gene" by (rule scenario_gene_invariant)
  have o: "\<not> falls_within (breakpoint_a (scenario_sv INV 500 6000)) (gene_interval scenario_gene)"
    "\<not> falls_within (breakpoint_b (scenario_sv INV 500 6000)) (gene_interval scenario_gene)"
    by (simp_all add: scenario_gene_def scenario_sv_def falls_within_def)
  have h5: "\<forall>g' \<in> set (genes (fst (build [scenario_gene] []))).
      \<not> falls_within (breakpoint_a (scenario_sv INV 500 6000)) (gene_interval g') \<and>
      \<not> falls_within (breakpoint_b (scenario_sv INV 500 6000)) (gene_interval g')"
    using o by (simp add: scenario_index_genes)
  have h6: "strictly_contains \<lparr>chrom = ''chrom1'', start = 500, stop = 6000\<rparr>
      (gene_interval scenario_gene)"
    by (simp add: strictly_contains_def scenario_gene_def)
  have c: "sv_id (scenario_sv INV 500 6000) = ''sv1''" "gene_id scenario_gene = ''G''"
    by (simp_all add: scenario_sv_def scenario_gene_def)
  show ?thesis
    using inv_span_annotated [OF h1 h2 h3 h4 h5 h6] h1 h2 h4 o h6 scenario_index_genes [of "[]"]
    unfolding c by blast
qed

subsection \<open>Half-open intervals\<close>






end
